theory Spec2Isabelle
  imports
    Main
    "HOL-Library.Word"
    "HOL-Library.AList"
    "HOL-Library.Char_ord"
    "HOL-Library.List_Lexorder"
    "HOL-Library.Multiset"
begin

section \<open>Python values\<close>

text \<open>
  The webhook module works on what Flask's JSON parser returns and on the documents it
  hands to the MongoDB driver. Both are dynamically typed Python values: \<open>None\<close>,
  booleans, unbounded integers, floats (kept as their IEEE-754 bit pattern), strings,
  lists and dictionaries. A dictionary is an association list in insertion order, read
  with \<open>map_of\<close>. A document read back from the collection also holds an \<open>ObjectId\<close>,
  which is twelve bytes.
\<close>

type_synonym byte = "8 word"

type_synonym oid = "96 word"

datatype pyval =
    PNone
  | PBool bool
  | PInt int
  | PFloat "64 word"
  | PStr string
  | PList "pyval list"
  | PDict "(string \<times> pyval) list"
  | PObjectId oid

type_synonym doc = "(string \<times> pyval) list"

text \<open>The exceptions the modelled code can raise and does not catch.\<close>

datatype exn = AttributeError | TypeError | KeyError

definition bind_exn :: "exn + 'a \<Rightarrow> ('a \<Rightarrow> exn + 'b) \<Rightarrow> exn + 'b" where
  "bind_exn m f = (case m of Inl e \<Rightarrow> Inl e | Inr v \<Rightarrow> f v)"

text \<open>
  Truth value testing (\<open>if x:\<close>, \<open>not x\<close>, \<open>a and b\<close>): \<open>None\<close>, \<open>False\<close>, zero of either
  numeric type (for a float both \<open>0.0\<close> and \<open>-0.0\<close>, that is every bit but the sign clear)
  and the empty string, list and dictionary are false; everything else is true.
\<close>

fun truthy :: "pyval \<Rightarrow> bool" where
  "truthy PNone = False"
| "truthy (PBool b) = b"
| "truthy (PInt i) = (i \<noteq> 0)"
| "truthy (PFloat w) = (take_bit 63 w \<noteq> 0)"
| "truthy (PStr s) = (s \<noteq> [])"
| "truthy (PList xs) = (xs \<noteq> [])"
| "truthy (PDict kvs) = (kvs \<noteq> [])"
| "truthy (PObjectId i) = True"

text \<open>
  \<open>x.get(key, default)\<close>: only a dictionary has the method; on any other value the
  attribute lookup raises \<open>AttributeError\<close>. The default is returned when the key is
  absent, not when it is present with the value \<open>None\<close>.
\<close>

definition dict_get :: "doc \<Rightarrow> string \<Rightarrow> pyval \<Rightarrow> pyval" where
  "dict_get kvs k dflt = (case map_of kvs k of None \<Rightarrow> dflt | Some v \<Rightarrow> v)"

fun py_get :: "pyval \<Rightarrow> string \<Rightarrow> pyval \<Rightarrow> exn + pyval" where
  "py_get (PDict kvs) k dflt = Inr (dict_get kvs k dflt)"
| "py_get _ k dflt = Inl AttributeError"

text \<open>
  \<open>str.replace(old, new)\<close> replaces every non-overlapping occurrence of \<open>old\<close>, scanning
  from the left. With an empty \<open>old\<close> Python puts \<open>new\<close> before every character and at
  the end.
\<close>

function str_replace :: "string \<Rightarrow> string \<Rightarrow> string \<Rightarrow> string" where
  "str_replace old new s =
     (if old = [] then new @ concat (map (\<lambda>c. c # new) s)
      else if s = [] then []
      else if take (length old) s = old then new @ str_replace old new (drop (length old) s)
      else hd s # str_replace old new (tl s))"
  by pat_completeness auto
termination
  by (relation "measure (\<lambda>(old, new, s). length s)") (auto simp: neq_Nil_conv)

declare str_replace.simps [simp del]

text \<open>\<open>x.replace(old, new)\<close> on a Python value: only a string has the method.\<close>

fun py_replace :: "pyval \<Rightarrow> string \<Rightarrow> string \<Rightarrow> exn + pyval" where
  "py_replace (PStr s) old new = Inr (PStr (str_replace old new s))"
| "py_replace _ old new = Inl AttributeError"

text \<open>Decimal rendering of an integer, as \<open>str\<close> gives it.\<close>

definition digit_char :: "nat \<Rightarrow> char" where
  "digit_char n = ''0123456789abcdef'' ! (n mod 16)"

function nat_digits :: "nat \<Rightarrow> string" where
  "nat_digits n = (if n < 10 then [digit_char n] else nat_digits (n div 10) @ [digit_char (n mod 10)])"
  by pat_completeness auto
termination
  by (relation "measure id") auto

declare nat_digits.simps [simp del]

definition str_int :: "int \<Rightarrow> string" where
  "str_int i = (if i < 0 then CHR ''-'' # nat_digits (nat (- i)) else nat_digits (nat i))"

text \<open>Lowercase hexadecimal, two digits a byte (\<open>hexdigest\<close>, and \<open>str\<close> of an ObjectId).\<close>

definition byte_hex :: "byte \<Rightarrow> string" where
  "byte_hex b = [digit_char (unat b div 16), digit_char (unat b mod 16)]"

definition hexdigest :: "byte list \<Rightarrow> string" where
  "hexdigest bs = concat (map byte_hex bs)"

definition oid_bytes :: "oid \<Rightarrow> byte list" where
  "oid_bytes w = map (\<lambda>k. ucast (drop_bit (8 * k) w)) (rev [0..<12])"

definition str_oid :: "oid \<Rightarrow> string" where
  "str_oid w = hexdigest (oid_bytes w)"

text \<open>
  The builtin \<open>str\<close>. For a float, a list and a dictionary it is Python's \<open>repr\<close>, which
  is not code of this repository: it is the parameter \<open>r\<close>.
\<close>

fun py_str :: "(pyval \<Rightarrow> string) \<Rightarrow> pyval \<Rightarrow> string" where
  "py_str r PNone = ''None''"
| "py_str r (PBool b) = (if b then ''True'' else ''False'')"
| "py_str r (PInt i) = str_int i"
| "py_str r (PStr s) = s"
| "py_str r (PObjectId i) = str_oid i"
| "py_str r v = r v"

text \<open>
  \<open>s.encode('utf-8')\<close> for a string of code points below 256: one byte below 128, two
  bytes from there on.
\<close>

definition utf8_encode :: "string \<Rightarrow> byte list" where
  "utf8_encode s =
     concat (map (\<lambda>c. let n = (of_char c :: nat)
                        in if n < 128 then [of_nat n]
                           else [of_nat (192 + n div 64), of_nat (128 + n mod 64)]) s)"

text \<open>
  \<open>hmac.compare_digest(a, b)\<close> on two strings: constant-time equality, and a \<open>TypeError\<close>
  when either string has a character outside ASCII.
\<close>

definition is_ascii :: "string \<Rightarrow> bool" where
  "is_ascii s = list_all (\<lambda>c. (of_char c :: nat) < 128) s"

definition compare_digest :: "string \<Rightarrow> string \<Rightarrow> exn + bool" where
  "compare_digest a b = (if is_ascii a \<and> is_ascii b then Inr (a = b) else Inl TypeError)"

section \<open>Signature verification\<close>

text \<open>
  \<open>verify_webhook_signature(payload_body, signature_header, secret)\<close> of
  \<open>app/webhook/routes.py\<close>. The secret comes from the configuration and the header from
  the request, each a string or \<open>None\<close>. \<open>hmac_sha256 key msg\<close> stands for the digest of
  \<open>hmac.new(key, msg=msg, digestmod=hashlib.sha256)\<close>, from the standard library.
\<close>

definition placeholder :: string where
  "placeholder = ''your-webhook-secret-here''"

definition expected_signature :: "(byte list \<Rightarrow> byte list \<Rightarrow> byte list) \<Rightarrow> byte list \<Rightarrow> string \<Rightarrow> string" where
  "expected_signature hmac_sha256 payload_body secret =
     ''sha256='' @ hexdigest (hmac_sha256 (utf8_encode secret) payload_body)"

fun verify_webhook_signature ::
  "(byte list \<Rightarrow> byte list \<Rightarrow> byte list) \<Rightarrow> byte list \<Rightarrow> string option \<Rightarrow> string option \<Rightarrow> exn + bool"
where
  "verify_webhook_signature hmac_sha256 payload_body signature_header None = Inr True"
| "verify_webhook_signature hmac_sha256 payload_body signature_header (Some secret) =
     (if secret = [] \<or> secret = placeholder then Inr True
      else (case signature_header of
              None \<Rightarrow> Inr False
            | Some h \<Rightarrow>
                if h = [] then Inr False
                else compare_digest (expected_signature hmac_sha256 payload_body secret) h))"

section \<open>The world outside the repository\<close>

text \<open>
  What a request handler reads from outside the repository's code: the configured
  secret (\<open>current_app.config.get('WEBHOOK_SECRET')\<close>, a string or \<open>None\<close>), the standard
  library's HMAC-SHA256 and \<open>repr\<close>, the clock (\<open>datetime.utcnow().isoformat()\<close>) and what
  the MongoDB driver does with an insert: it raises (the exception's message), or it
  stores the document under a fresh ObjectId.
\<close>

record env =
  WEBHOOK_SECRET :: "string option"
  hmac_sha256 :: "byte list \<Rightarrow> byte list \<Rightarrow> byte list"
  builtin_repr :: "pyval \<Rightarrow> string"
  utcnow_isoformat :: string
  insert_one_result :: "string + oid"

text \<open>
  The request as Flask presents it: the two headers (absent is \<open>None\<close>), the raw body
  \<open>request.data\<close>, and the outcome of \<open>request.json\<close>, which is the parsed value or,
  when Flask raises (a body that is not JSON, a content type that is not JSON), \<open>None\<close>.
\<close>

record request =
  github_event :: "string option"
  hub_signature_256 :: "string option"
  data :: "byte list"
  json :: "pyval option"

text \<open>
  A response is what \<open>jsonify\<close> is given and the status code beside it. \<open>jsonify\<close>
  serialises \<open>None\<close>, booleans, numbers, strings, lists and dictionaries; on an
  \<open>ObjectId\<close> anywhere in the value it raises \<open>TypeError\<close>.
\<close>

record response =
  status :: nat
  body :: pyval

fun jsonable :: "pyval \<Rightarrow> bool" where
  "jsonable (PObjectId i) = False"
| "jsonable (PList xs) = list_all jsonable xs"
| "jsonable (PDict kvs) = list_all (\<lambda>kv. jsonable (snd kv)) kvs"
| "jsonable _ = True"

definition jsonify :: "pyval \<Rightarrow> nat \<Rightarrow> exn + response" where
  "jsonify v code = (if jsonable v then Inr \<lparr>status = code, body = v\<rparr> else Inl TypeError)"

text \<open>
  The \<open>events\<close> collection: every stored document has its \<open>_id\<close>, and the fields it was
  inserted with. \<open>insert_one\<close> appends; \<open>find()\<close> yields each document as a dictionary
  with \<open>_id\<close> first.
\<close>

type_synonym collection = "(oid \<times> doc) list"

definition insert_one :: "env \<Rightarrow> collection \<Rightarrow> doc \<Rightarrow> string + (oid \<times> collection)" where
  "insert_one e coll d =
     (case insert_one_result e of
        Inl msg \<Rightarrow> Inl msg
      | Inr i \<Rightarrow> Inr (i, coll @ [(i, d)]))"

definition find_all :: "collection \<Rightarrow> doc list" where
  "find_all coll = map (\<lambda>(i, d). (''_id'', PObjectId i) # d) coll"

section \<open>Normalisation of a payload\<close>

text \<open>
  Lines 148 to 230 of \<open>receiver\<close>: the value of the variable \<open>event_data\<close> once the
  \<open>if event_type == 'push' ... elif event_type == 'pull_request'\<close> statement has run:
  \<open>None\<close> or the dictionary, unless a method call raised on the way. The keys of each
  dictionary are evaluated in the order they are written.
\<close>

definition push_event :: "env \<Rightarrow> pyval \<Rightarrow> exn + doc" where
  "push_event e payload =
     bind_exn (py_get payload ''after'' (PStr ''unknown'')) (\<lambda>request_id.
     bind_exn (py_get payload ''pusher'' (PDict [])) (\<lambda>pusher.
     bind_exn (py_get pusher ''name'' (PStr ''Unknown'')) (\<lambda>author.
     bind_exn (py_get payload ''ref'' (PStr [])) (\<lambda>ref.
     bind_exn (py_replace ref ''refs/heads/'' []) (\<lambda>to_branch.
     Inr [(''request_id'', request_id),
          (''author'', author),
          (''action'', PStr ''PUSH''),
          (''from_branch'', PNone),
          (''to_branch'', to_branch),
          (''timestamp'', PStr (utcnow_isoformat e))])))))"

definition pr_opened_event :: "env \<Rightarrow> pyval \<Rightarrow> exn + doc" where
  "pr_opened_event e pr =
     bind_exn (py_get pr ''id'' (PStr ''unknown'')) (\<lambda>pr_id.
     bind_exn (py_get pr ''user'' (PDict [])) (\<lambda>user.
     bind_exn (py_get user ''login'' (PStr ''Unknown'')) (\<lambda>author.
     bind_exn (py_get pr ''head'' (PDict [])) (\<lambda>head.
     bind_exn (py_get head ''ref'' (PStr ''unknown'')) (\<lambda>from_branch.
     bind_exn (py_get pr ''base'' (PDict [])) (\<lambda>base.
     bind_exn (py_get base ''ref'' (PStr ''unknown'')) (\<lambda>to_branch.
     Inr [(''request_id'', PStr (py_str (builtin_repr e) pr_id)),
          (''author'', author),
          (''action'', PStr ''PULL_REQUEST''),
          (''from_branch'', from_branch),
          (''to_branch'', to_branch),
          (''timestamp'', PStr (utcnow_isoformat e))])))))))"

definition pr_merged_event :: "env \<Rightarrow> pyval \<Rightarrow> exn + doc" where
  "pr_merged_event e pr =
     bind_exn (py_get pr ''merge_commit_sha'' (PStr ''unknown'')) (\<lambda>request_id.
     bind_exn (py_get pr ''merged_by'' (PDict [])) (\<lambda>merged_by.
     bind_exn (py_get merged_by ''login'' (PStr ''Unknown'')) (\<lambda>author.
     bind_exn (py_get pr ''head'' (PDict [])) (\<lambda>head.
     bind_exn (py_get head ''ref'' (PStr ''unknown'')) (\<lambda>from_branch.
     bind_exn (py_get pr ''base'' (PDict [])) (\<lambda>base.
     bind_exn (py_get base ''ref'' (PStr ''unknown'')) (\<lambda>to_branch.
     Inr [(''request_id'', request_id),
          (''author'', author),
          (''action'', PStr ''MERGE''),
          (''from_branch'', from_branch),
          (''to_branch'', to_branch),
          (''timestamp'', PStr (utcnow_isoformat e))])))))))"

definition pull_request_event :: "env \<Rightarrow> pyval \<Rightarrow> exn + doc option" where
  "pull_request_event e payload =
     bind_exn (py_get payload ''action'' PNone) (\<lambda>action.
     bind_exn (py_get payload ''pull_request'' (PDict [])) (\<lambda>pr.
       if action = PStr ''opened'' \<or> action = PStr ''reopened''
       then bind_exn (pr_opened_event e pr) (\<lambda>d. Inr (Some d))
       else if action = PStr ''closed''
       then bind_exn (py_get pr ''merged'' PNone) (\<lambda>merged.
              if truthy merged
              then bind_exn (pr_merged_event e pr) (\<lambda>d. Inr (Some d))
              else Inr None)
       else Inr None))"

definition event_data :: "env \<Rightarrow> string option \<Rightarrow> pyval \<Rightarrow> exn + doc option" where
  "event_data e event_type payload =
     (if event_type = Some ''push''
      then bind_exn (push_event e payload) (\<lambda>d. Inr (Some d))
      else if event_type = Some ''pull_request''
      then pull_request_event e payload
      else Inr None)"

section \<open>The webhook endpoint\<close>

text \<open>
  \<open>receiver()\<close>, \<open>POST /webhook/receiver\<close>. The result is the response, or the exception
  that leaves the function (Flask answers it with its own 500 page), and the collection
  afterwards. The \<open>print\<close> calls write to the log only; the one of line 255 is kept for
  its argument \<open>payload.get('action', 'no action')\<close>, which can raise.
\<close>

definition signature_ok :: "env \<Rightarrow> request \<Rightarrow> exn + bool" where
  "signature_ok e req =
     (case WEBHOOK_SECRET e of
        None \<Rightarrow> Inr True
      | Some s \<Rightarrow>
          if s \<noteq> [] \<and> s \<noteq> placeholder
          then verify_webhook_signature (hmac_sha256 e) (data req) (hub_signature_256 req) (Some s)
          else Inr True)"

definition store_event :: "env \<Rightarrow> collection \<Rightarrow> doc \<Rightarrow> (exn + response) \<times> collection" where
  "store_event e coll d =
     (case insert_one e coll d of
        Inr (i, coll') \<Rightarrow>
          (jsonify (PDict [(''status'', PStr ''success''), (''id'', PStr (str_oid i))]) 200, coll')
      | Inl msg \<Rightarrow>
          (jsonify (PDict [(''error'', PStr ''Database error''), (''message'', PStr msg)]) 500, coll))"

definition ignored :: "pyval \<Rightarrow> exn + response" where
  "ignored payload =
     bind_exn (py_get payload ''action'' (PStr ''no action'')) (\<lambda>logged.
     jsonify (PDict [(''status'', PStr ''ignored''), (''reason'', PStr ''Event type not handled'')]) 200)"

definition receiver :: "env \<Rightarrow> request \<Rightarrow> collection \<Rightarrow> (exn + response) \<times> collection" where
  "receiver e req coll =
     (case signature_ok e req of
        Inl x \<Rightarrow> (Inl x, coll)
      | Inr False \<Rightarrow> (jsonify (PDict [(''error'', PStr ''Invalid signature'')]) 401, coll)
      | Inr True \<Rightarrow>
          (case json req of
             None \<Rightarrow> (jsonify (PDict [(''error'', PStr ''Invalid JSON'')]) 400, coll)
           | Some payload \<Rightarrow>
               if \<not> truthy payload
               then (jsonify (PDict [(''error'', PStr ''No payload'')]) 400, coll)
               else (case event_data e (github_event req) payload of
                       Inl x \<Rightarrow> (Inl x, coll)
                     | Inr None \<Rightarrow> (ignored payload, coll)
                     | Inr (Some d) \<Rightarrow>
                         if d \<noteq> [] then store_event e coll d else (ignored payload, coll))))"

section \<open>The events query\<close>

text \<open>
  \<open>get_events()\<close>, \<open>GET /api/events\<close>:
  \<open>list(mongo.db.events.find().sort('timestamp', -1).limit(10))\<close>, then \<open>_id\<close> replaced by
  its \<open>str\<close> in every document, then \<open>jsonify\<close>. The collection orders the timestamps
  \<open>receiver\<close> writes, which are strings, by their characters; \<open>timestamp_of\<close> reads a
  document without a string there as the empty string, and the properties below are
  about collections of documents that have one. Documents with equal timestamps keep
  the order they were inserted in.
\<close>

definition timestamp_of :: "doc \<Rightarrow> string" where
  "timestamp_of d = (case map_of d ''timestamp'' of Some (PStr s) \<Rightarrow> s | _ \<Rightarrow> [])"

fun insert_desc :: "doc \<Rightarrow> doc list \<Rightarrow> doc list" where
  "insert_desc d [] = [d]"
| "insert_desc d (x # xs) =
     (if timestamp_of x \<le> timestamp_of d then d # x # xs else x # insert_desc d xs)"

fun sort_desc :: "doc list \<Rightarrow> doc list" where
  "sort_desc [] = []"
| "sort_desc (d # ds) = insert_desc d (sort_desc ds)"

definition recent :: "nat \<Rightarrow> collection \<Rightarrow> doc list" where
  "recent n coll = take n (sort_desc (find_all coll))"

definition id_to_str :: "env \<Rightarrow> doc \<Rightarrow> exn + doc" where
  "id_to_str e event =
     (case map_of event ''_id'' of
        None \<Rightarrow> Inl KeyError
      | Some v \<Rightarrow> Inr (AList.update ''_id'' (PStr (py_str (builtin_repr e) v)) event))"

fun ids_to_str :: "env \<Rightarrow> doc list \<Rightarrow> exn + doc list" where
  "ids_to_str e [] = Inr []"
| "ids_to_str e (event # events) =
     bind_exn (id_to_str e event) (\<lambda>event'.
     bind_exn (ids_to_str e events) (\<lambda>events'. Inr (event' # events')))"

definition get_events :: "env \<Rightarrow> collection \<Rightarrow> exn + response" where
  "get_events e coll =
     bind_exn (ids_to_str e (recent 10 coll)) (\<lambda>events.
     jsonify (PList (map PDict events)) 200)"

section \<open>Vocabulary of the properties\<close>

text \<open>
  \<open>as_obj\<close> reads what \<open>x.get(k, {})\<close> finds under a key as a nested object: the empty
  dictionary when the key is absent, the dictionary when there is one, and nothing when
  the key holds any other value (\<open>null\<close>, a number, a string, a list).
\<close>

fun as_obj :: "pyval option \<Rightarrow> doc option" where
  "as_obj None = Some []"
| "as_obj (Some (PDict d)) = Some d"
| "as_obj (Some _) = None"

text \<open>
  A document as \<open>receiver\<close> inserts it: values that came out of the JSON parser or are
  strings, and a string under \<open>timestamp\<close>.
\<close>

fun is_str :: "pyval \<Rightarrow> bool" where
  "is_str (PStr s) = True"
| "is_str _ = False"

definition stored_event :: "doc \<Rightarrow> bool" where
  "stored_event d = (jsonable (PDict d) \<and> is_str (dict_get d ''timestamp'' PNone))"

text \<open>
  \<open>removeprefix\<close> strips a leading \<open>pre\<close> and nothing else (Python's \<open>str.removeprefix\<close>);
  \<open>occurs_in old s\<close> says that \<open>old\<close> occurs somewhere in \<open>s\<close>.
\<close>

definition removeprefix :: "string \<Rightarrow> string \<Rightarrow> string" where
  "removeprefix pre s = (if take (length pre) s = pre then drop (length pre) s else s)"

fun occurs_in :: "string \<Rightarrow> string \<Rightarrow> bool" where
  "occurs_in old [] = (old = [])"
| "occurs_in old (c # cs) = (take (length old) (c # cs) = old \<or> occurs_in old cs)"



text \<open>
  \<open>path_get v ks\<close> walks down the keys \<open>ks\<close> from \<open>v\<close>: it finds nothing when a key is
  absent or when the value on the way is not an object. \<open>path_or\<close> gives a default for
  what is not found: \<open>payload.pusher.name\<close> or \<open>Unknown\<close>.
\<close>

fun path_get :: "pyval \<Rightarrow> string list \<Rightarrow> pyval option" where
  "path_get v [] = Some v"
| "path_get (PDict d) (k # ks) = (case map_of d k of None \<Rightarrow> None | Some v \<Rightarrow> path_get v ks)"
| "path_get _ (k # ks) = None"






section \<open>An environment for the examples\<close>

text \<open>
  The concrete requests further down run in this environment: the secret \<open>s3cret\<close>, the
  clock at noon of 1 January 2024 and a driver that stores under the id
  \<open>507f1f77bcf86cd799439011\<close>. Its digest function (the key followed by the message) and
  its \<open>repr\<close> are stand-ins for the standard library's: the general theorems below
  hold for every digest function and every \<open>repr\<close>, and the examples do not depend on
  which digest it is.
\<close>

definition example_env :: env where
  "example_env =
     \<lparr>WEBHOOK_SECRET = Some ''s3cret'',
      hmac_sha256 = (\<lambda>key msg. key @ msg),
      builtin_repr = (\<lambda>v. ''...''),
      utcnow_isoformat = ''2024-01-01T12:00:00.000000'',
      insert_one_result = Inr 0x507f1f77bcf86cd799439011\<rparr>"

text \<open>
  The same environment with no secret configured, and a request without a signature
  header. Without a real secret the handler reads neither the header nor the raw body.
\<close>

definition open_env :: env where
  "open_env = example_env\<lparr>WEBHOOK_SECRET := None\<rparr>"

definition unsigned_request :: "string option \<Rightarrow> pyval \<Rightarrow> request" where
  "unsigned_request event_type payload =
     \<lparr>github_event = event_type, hub_signature_256 = None, data = [], json = Some payload\<rparr>"

text \<open>
  A collection of three events, inserted out of order (the second has a timestamp on a
  whole second, which \<open>isoformat\<close> writes without the fraction), and one of eleven
  documents whose timestamps are the single characters \<open>0\<close> to \<open>9\<close> and \<open>a\<close>.
\<close>

definition example_collection :: collection where
  "example_collection =
     [(0x507f1f77bcf86cd799439011,
       [(''request_id'', PStr ''sha1''), (''author'', PStr ''alice''), (''action'', PStr ''PUSH''),
        (''from_branch'', PNone), (''to_branch'', PStr ''main''),
        (''timestamp'', PStr ''2024-01-01T12:00:00.000000'')]),
      (0x507f1f77bcf86cd799439013,
       [(''request_id'', PStr ''sha9''), (''author'', PStr ''carol''), (''action'', PStr ''MERGE''),
        (''from_branch'', PStr ''feat''), (''to_branch'', PStr ''main''),
        (''timestamp'', PStr ''2024-01-03T08:30:00'')]),
      (0x507f1f77bcf86cd799439012,
       [(''request_id'', PStr ''42''), (''author'', PStr ''bob''), (''action'', PStr ''PULL_REQUEST''),
        (''from_branch'', PStr ''feat''), (''to_branch'', PStr ''main''),
        (''timestamp'', PStr ''2024-01-02T09:15:00.250000'')])]"

definition eleven_documents :: collection where
  "eleven_documents = map (\<lambda>n. (of_nat n, [(''timestamp'', PStr [digit_char n])])) [0..<11]"

section \<open>Properties of the Python operations\<close>

lemma bind_exn_simps [simp]:
  "bind_exn (Inl x) f = Inl x"
  "bind_exn (Inr v) f = f v"
  by (simp_all add: bind_exn_def)

lemma jsonify_jsonable [simp]:
  "jsonable v \<Longrightarrow> jsonify v code = Inr \<lparr>status = code, body = v\<rparr>"
  by (simp add: jsonify_def)

lemma digit_char_ascii: "of_char (digit_char n) < (128::nat)"
proof -
  have "list_all (\<lambda>c. of_char c < (128::nat)) ''0123456789abcdef''"
    by simp
  then show ?thesis
    unfolding digit_char_def by (simp add: list_all_length)
qed

lemma is_ascii_hexdigest: "is_ascii (hexdigest bs)"
  by (induction bs) (simp_all add: is_ascii_def hexdigest_def byte_hex_def digit_char_ascii)

lemma is_ascii_expected: "is_ascii (expected_signature hm B s)"
  using is_ascii_hexdigest
  by (simp add: expected_signature_def is_ascii_def)

section \<open>Signature verification: what it returns\<close>

text \<open>
  With a real secret the function returns \<open>False\<close> without a header, raises on a header
  with a character outside ASCII, and otherwise compares the header with the expected
  signature.
\<close>

lemma verify_real_secret:
  assumes "s \<noteq> []" "s \<noteq> placeholder"
  shows "verify_webhook_signature hm B H (Some s) =
           (case H of
              None \<Rightarrow> Inr False
            | Some h \<Rightarrow> if is_ascii h then Inr (h = expected_signature hm B s) else Inl TypeError)"
  using assms is_ascii_expected [of hm B s]
  by (auto simp: compare_digest_def is_ascii_def expected_signature_def split: option.splits)

text \<open>
  Claim C1. For every body \<open>B\<close>, header \<open>H\<close> and secret: \<open>verify_webhook_signature\<close>
  returns \<open>True\<close> when the secret is absent, empty or the placeholder
  \<open>your-webhook-secret-here\<close>; with any other secret \<open>s\<close> it returns \<open>False\<close> when the header
  is absent, and it returns \<open>True\<close> exactly when the header is \<open>sha256=\<close> followed by the
  lowercase hexadecimal HMAC-SHA256 of \<open>B\<close> keyed by the UTF-8 bytes of \<open>s\<close>.
\<close>

theorem verify_webhook_signature_spec:
  "verify_webhook_signature hm B H None = Inr True
   \<and> verify_webhook_signature hm B H (Some []) = Inr True
   \<and> verify_webhook_signature hm B H (Some ''your-webhook-secret-here'') = Inr True
   \<and> (s \<noteq> [] \<and> s \<noteq> ''your-webhook-secret-here'' \<longrightarrow>
        verify_webhook_signature hm B None (Some s) = Inr False
        \<and> (verify_webhook_signature hm B H (Some s) = Inr True)
            = (H = Some (''sha256='' @ hexdigest (hm (utf8_encode s) B))))"
proof -
  have "(verify_webhook_signature hm B H (Some s) = Inr True)
            = (H = Some (''sha256='' @ hexdigest (hm (utf8_encode s) B)))"
    if "s \<noteq> []" "s \<noteq> placeholder"
    using is_ascii_expected [of hm B s] verify_real_secret [OF that, of hm B H]
    by (cases H) (auto simp: expected_signature_def)
  then show ?thesis
    by (auto simp: placeholder_def)
qed

theorem verify_webhook_signature_spec_witness:
  "''s3cret'' \<noteq> [] \<and> ''s3cret'' \<noteq> ''your-webhook-secret-here''
   \<and> verify_webhook_signature (\<lambda>key msg. key @ msg) [0x7b, 0x7d] None (Some ''s3cret'') = Inr False
   \<and> verify_webhook_signature (\<lambda>key msg. key @ msg) [0x7b, 0x7d]
         (Some ''sha256=7333637265747b7d'') (Some ''s3cret'') = Inr True
   \<and> verify_webhook_signature (\<lambda>key msg. key @ msg) [0x7b, 0x7d]
         (Some ''sha256=0000000000000000'') (Some ''s3cret'') \<noteq> Inr True"
  using verify_webhook_signature_spec [of "\<lambda>key msg. key @ msg" "[0x7b, 0x7d]" "Some ''sha256=7333637265747b7d''" "''s3cret''"]
    verify_webhook_signature_spec [of "\<lambda>key msg. key @ msg" "[0x7b, 0x7d]" "Some ''sha256=0000000000000000''" "''s3cret''"]
  by (simp add: utf8_encode_def hexdigest_def byte_hex_def digit_char_def)

section \<open>Reading a payload\<close>

lemma py_get_as_obj:
  "as_obj (map_of d k) = Some x \<Longrightarrow> py_get (PDict d) k (PDict []) = Inr (PDict x)"
  by (cases "map_of d k" rule: as_obj.cases) (auto simp: dict_get_def)

lemma bind_exn_eq_Inr: "(bind_exn m f = Inr y) = (\<exists>v. m = Inr v \<and> f v = Inr y)"
  by (cases m) auto

lemma py_get_eq_Inr: "(py_get x k dflt = Inr v) = (\<exists>d. x = PDict d \<and> v = dict_get d k dflt)"
  by (cases x) auto

lemma py_replace_eq_Inr: "(py_replace x old new = Inr v) = (\<exists>s. x = PStr s \<and> v = PStr (str_replace old new s))"
  by (cases x) auto

section \<open>The signature gate\<close>

lemma signature_ok_update [simp]:
  "signature_ok (e\<lparr>builtin_repr := r\<rparr>) req = signature_ok e req"
  "signature_ok (e\<lparr>utcnow_isoformat := t\<rparr>) req = signature_ok e req"
  "signature_ok (e\<lparr>insert_one_result := ir\<rparr>) req = signature_ok e req"
  "signature_ok e (req\<lparr>github_event := ev\<rparr>) = signature_ok e req"
  "signature_ok e (req\<lparr>json := j\<rparr>) = signature_ok e req"
  by (simp_all add: signature_ok_def split: option.splits)

lemma signature_ok_real:
  "WEBHOOK_SECRET e = Some s \<Longrightarrow> s \<noteq> [] \<Longrightarrow> s \<noteq> placeholder \<Longrightarrow>
   signature_ok e req = verify_webhook_signature (hmac_sha256 e) (data req) (hub_signature_256 req) (Some s)"
  by (simp add: signature_ok_def)

text \<open>
  A signature header with a character outside ASCII makes \<open>compare_digest\<close> raise; the
  exception leaves \<open>receiver\<close>, and the request is answered by Flask's error page, not
  by the 401 of the gate.
\<close>

lemma non_ascii_signature_raises:
  assumes "WEBHOOK_SECRET e = Some s" and "s \<noteq> []" and "s \<noteq> placeholder"
    and "hub_signature_256 req = Some h" and "\<not> is_ascii h"
  shows "receiver e req coll = (Inl TypeError, coll)"
  using assms signature_ok_real [of e s req] verify_real_secret [of s "hmac_sha256 e" "data req" "Some h"]
  by (simp add: receiver_def)

section \<open>The webhook endpoint: the gates\<close>

text \<open>
  When a real secret is configured and the verification returns \<open>False\<close> (no header,
  an empty one, or an ASCII string other than the expected signature), \<open>receiver\<close>
  answers 401 with \<open>{error: 'Invalid signature'}\<close> and leaves the collection as it was.
  Nothing after the gate runs: the outcome is the same whatever \<open>request.json\<close> would
  give, whatever the event type, and whatever the clock and the driver would do.
\<close>

lemma invalid_signature_rejected:
  assumes "WEBHOOK_SECRET e = Some s" and "s \<noteq> []" and "s \<noteq> ''your-webhook-secret-here''"
    and "verify_webhook_signature (hmac_sha256 e) (data req) (hub_signature_256 req) (Some s) = Inr False"
  shows "receiver e req coll =
           (Inr \<lparr>status = 401, body = PDict [(''error'', PStr ''Invalid signature'')]\<rparr>, coll)
         \<and> receiver (e\<lparr>builtin_repr := r, utcnow_isoformat := t, insert_one_result := ir\<rparr>)
                     (req\<lparr>github_event := ev, json := j\<rparr>) coll
             = receiver e req coll"
  using signature_ok_real [of e s req] assms by (simp add: receiver_def placeholder_def)

lemma invalid_signature_rejected_example:
  "WEBHOOK_SECRET example_env = Some ''s3cret''
   \<and> verify_webhook_signature (hmac_sha256 example_env) [0x7b, 0x7d]
         (Some ''sha256=0000000000000000'') (Some ''s3cret'') = Inr False
   \<and> receiver example_env
        \<lparr>github_event = Some ''push'', hub_signature_256 = Some ''sha256=0000000000000000'',
         data = [0x7b, 0x7d], json = Some (PDict [(''after'', PStr ''sha1'')])\<rparr> []
      = (Inr \<lparr>status = 401, body = PDict [(''error'', PStr ''Invalid signature'')]\<rparr>, [])"
proof -
  have v: "verify_webhook_signature (hmac_sha256 example_env) [0x7b, 0x7d]
         (Some ''sha256=0000000000000000'') (Some ''s3cret'') = Inr False"
    by (simp add: example_env_def placeholder_def compare_digest_def is_ascii_def
        expected_signature_def utf8_encode_def hexdigest_def byte_hex_def digit_char_def)
  have s: "WEBHOOK_SECRET example_env = Some ''s3cret''"
    by (simp add: example_env_def)
  show ?thesis
    using invalid_signature_rejected [where e = example_env and s = "''s3cret''"
        and req = "\<lparr>github_event = Some ''push'', hub_signature_256 = Some ''sha256=0000000000000000'',
         data = [0x7b, 0x7d], json = Some (PDict [(''after'', PStr ''sha1'')])\<rparr>"
        and coll = "[]"] v s
    by simp
qed

text \<open>
  Claim C7 says that every request whose signature verification fails under a real
  secret is answered 401 and goes no further. The code does not do that for a
  signature header with a character outside ASCII (headers arrive decoded as Latin-1):
  \<open>verify_webhook_signature\<close>, whose docstring promises \<open>False\<close> for every signature
  that is not valid, raises \<open>TypeError\<close> out of \<open>hmac.compare_digest\<close>, the exception leaves
  \<open>receiver\<close>, and the request is answered by Flask's error page (500), not by the 401
  of the gate. Here with the secret \<open>s3cret\<close> and the header \<open>sha256=\<close> followed by the
  character 233.
\<close>

theorem non_ascii_signature_not_rejected:
  "verify_webhook_signature (hmac_sha256 example_env) [0x7b, 0x7d]
       (Some (''sha256='' @ [CHR 0xE9])) (Some ''s3cret'') = Inl TypeError
   \<and> receiver example_env
        \<lparr>github_event = Some ''push'', hub_signature_256 = Some (''sha256='' @ [CHR 0xE9]),
         data = [0x7b, 0x7d], json = Some (PDict [(''after'', PStr ''sha1'')])\<rparr> []
       = (Inl TypeError, [])"
  by (simp add: receiver_def signature_ok_def example_env_def placeholder_def
      compare_digest_def is_ascii_def)


text \<open>
  Claim C10, as amended. A request that passes the signature gate and whose JSON body
  parses to a false value (\<open>{}\<close>, \<open>[]\<close>, \<open>null\<close>, \<open>false\<close>, \<open>0\<close>, \<open>0.0\<close>, \<open>""\<close>) is answered 400
  with \<open>{error: 'No payload'}\<close>; the collection is left as it was, and the event type,
  the clock and the driver play no part. The claim as written leaves the signature gate
  out: with a real secret and no valid signature the same body is answered 401.
\<close>

theorem empty_payload_rejected:
  assumes "signature_ok e req = Inr True" and "json req = Some v" and "\<not> truthy v"
  shows "receiver e req coll =
           (Inr \<lparr>status = 400, body = PDict [(''error'', PStr ''No payload'')]\<rparr>, coll)
         \<and> receiver (e\<lparr>builtin_repr := r, utcnow_isoformat := t, insert_one_result := ir\<rparr>)
                     (req\<lparr>github_event := ev\<rparr>) coll
             = receiver e req coll"
  using assms by (simp add: receiver_def)

theorem empty_payload_counterexample:
  "receiver example_env
     \<lparr>github_event = Some ''push'', hub_signature_256 = None, data = [0x7b, 0x7d],
      json = Some (PDict [])\<rparr> []
   = (Inr \<lparr>status = 401, body = PDict [(''error'', PStr ''Invalid signature'')]\<rparr>, [])"
  by (simp add: receiver_def signature_ok_def example_env_def placeholder_def)

section \<open>The example environment, evaluated\<close>

lemma signature_ok_open [simp]: "signature_ok open_env req = Inr True"
  by (simp add: signature_ok_def open_env_def example_env_def)

lemma open_env_fields [simp]:
  "utcnow_isoformat open_env = ''2024-01-01T12:00:00.000000''"
  "insert_one_result open_env = Inr 0x507f1f77bcf86cd799439011"
  "builtin_repr open_env = (\<lambda>v. ''...'')"
  by (simp_all add: open_env_def example_env_def)

lemma unsigned_request_fields [simp]:
  "github_event (unsigned_request ev p) = ev"
  "json (unsigned_request ev p) = Some p"
  by (simp_all add: unsigned_request_def)

lemma str_oid_example: "str_oid 0x507f1f77bcf86cd799439011 = ''507f1f77bcf86cd799439011''"
  by code_simp

lemma replace_main: "str_replace ''refs/heads/'' [] ''refs/heads/main'' = ''main''"
  by code_simp

lemma replace_twice: "str_replace ''refs/heads/'' [] ''refs/heads/fix/refs/heads/main'' = ''fix/main''"
  by code_simp

theorem empty_payload_rejected_witness:
  "signature_ok open_env (unsigned_request (Some ''push'') (PDict [])) = Inr True
   \<and> \<not> truthy (PDict []) \<and> \<not> truthy (PList []) \<and> \<not> truthy PNone \<and> \<not> truthy (PBool False)
   \<and> \<not> truthy (PInt 0) \<and> \<not> truthy (PStr [])
   \<and> receiver open_env (unsigned_request (Some ''push'') (PDict [])) []
       = (Inr \<lparr>status = 400, body = PDict [(''error'', PStr ''No payload'')]\<rparr>, [])
   \<and> receiver open_env (unsigned_request (Some ''push'') (PInt 0)) []
       = (Inr \<lparr>status = 400, body = PDict [(''error'', PStr ''No payload'')]\<rparr>, [])"
  using empty_payload_rejected [where e = open_env and req = "unsigned_request (Some ''push'') (PDict [])"
      and v = "PDict []" and coll = "[]"]
    empty_payload_rejected [where e = open_env and req = "unsigned_request (Some ''push'') (PInt 0)"
      and v = "PInt 0" and coll = "[]"]
  by simp

section \<open>Past the gates\<close>

lemma receiver_parsed:
  assumes "signature_ok e req = Inr True" and "json req = Some payload" and "truthy payload"
  shows "receiver e req coll =
           (case event_data e (github_event req) payload of
              Inl x \<Rightarrow> (Inl x, coll)
            | Inr None \<Rightarrow> (ignored payload, coll)
            | Inr (Some d) \<Rightarrow> if d \<noteq> [] then store_event e coll d else (ignored payload, coll))"
  using assms by (simp add: receiver_def)


lemma dict_get_None_eq_str [simp]:
  "(dict_get p k PNone = PStr s) = (map_of p k = Some (PStr s))"
  by (simp add: dict_get_def split: option.splits)

lemma pull_request_event_dict:
  "pull_request_event e (PDict p) =
     (if map_of p ''action'' = Some (PStr ''opened'') \<or> map_of p ''action'' = Some (PStr ''reopened'')
      then bind_exn (pr_opened_event e (dict_get p ''pull_request'' (PDict []))) (\<lambda>d. Inr (Some d))
      else if map_of p ''action'' = Some (PStr ''closed'')
      then bind_exn (py_get (dict_get p ''pull_request'' (PDict [])) ''merged'' PNone) (\<lambda>merged.
             if truthy merged
             then bind_exn (pr_merged_event e (dict_get p ''pull_request'' (PDict []))) (\<lambda>d. Inr (Some d))
             else Inr None)
      else Inr None)"
  by (simp add: pull_request_event_def)

lemma dict_get_as_obj:
  "as_obj (map_of d k) = Some x \<Longrightarrow> dict_get d k (PDict []) = PDict x"
  by (cases "map_of d k" rule: as_obj.cases) (auto simp: dict_get_def)

section \<open>The webhook endpoint: events that are not handled\<close>




section \<open>Normalisation: what each event type yields\<close>

lemma str_replace_Nil: "old \<noteq> [] \<Longrightarrow> str_replace old new [] = []"
  by (subst str_replace.simps) simp

lemma str_replace_no_occurrence:
  "old \<noteq> [] \<Longrightarrow> \<not> occurs_in old s \<Longrightarrow> str_replace old new s = s"
proof (induction s)
  case Nil
  then show ?case by (simp add: str_replace_Nil)
next
  case (Cons c cs)
  then show ?case by (subst str_replace.simps) simp
qed

lemma str_replace_prefix:
  "old \<noteq> [] \<Longrightarrow> str_replace old new (old @ s) = new @ str_replace old new s"
  by (subst str_replace.simps) simp

lemma str_replace_removeprefix:
  assumes "old \<noteq> []" and "\<not> occurs_in old (removeprefix old s)"
  shows "str_replace old [] s = removeprefix old s"
proof (cases "take (length old) s = old")
  case True
  then have s: "s = old @ drop (length old) s"
    by (metis append_take_drop_id)
  have "str_replace old [] (old @ drop (length old) s) = drop (length old) s"
    using assms True by (simp add: str_replace_prefix str_replace_no_occurrence removeprefix_def)
  with s True show ?thesis
    by (simp add: removeprefix_def)
next
  case False
  with assms show ?thesis
    by (simp add: removeprefix_def str_replace_no_occurrence)
qed

lemma push_event_dict:
  "push_event e (PDict p) =
     bind_exn (py_get (dict_get p ''pusher'' (PDict [])) ''name'' (PStr ''Unknown'')) (\<lambda>author.
     bind_exn (py_replace (dict_get p ''ref'' (PStr [])) ''refs/heads/'' []) (\<lambda>to_branch.
     Inr [(''request_id'', dict_get p ''after'' (PStr ''unknown'')),
          (''author'', author),
          (''action'', PStr ''PUSH''),
          (''from_branch'', PNone),
          (''to_branch'', to_branch),
          (''timestamp'', PStr (utcnow_isoformat e))]))"
  by (simp add: push_event_def)

lemma pr_opened_event_dict:
  assumes "as_obj (map_of pr ''user'') = Some user"
    and "as_obj (map_of pr ''head'') = Some head"
    and "as_obj (map_of pr ''base'') = Some base"
  shows "pr_opened_event e (PDict pr) =
     Inr [(''request_id'', PStr (py_str (builtin_repr e) (dict_get pr ''id'' (PStr ''unknown'')))),
          (''author'', dict_get user ''login'' (PStr ''Unknown'')),
          (''action'', PStr ''PULL_REQUEST''),
          (''from_branch'', dict_get head ''ref'' (PStr ''unknown'')),
          (''to_branch'', dict_get base ''ref'' (PStr ''unknown'')),
          (''timestamp'', PStr (utcnow_isoformat e))]"
  using assms by (simp add: pr_opened_event_def dict_get_as_obj)

lemma pr_merged_event_dict:
  assumes "as_obj (map_of pr ''merged_by'') = Some merged_by"
    and "as_obj (map_of pr ''head'') = Some head"
    and "as_obj (map_of pr ''base'') = Some base"
  shows "pr_merged_event e (PDict pr) =
     Inr [(''request_id'', dict_get pr ''merge_commit_sha'' (PStr ''unknown'')),
          (''author'', dict_get merged_by ''login'' (PStr ''Unknown'')),
          (''action'', PStr ''MERGE''),
          (''from_branch'', dict_get head ''ref'' (PStr ''unknown'')),
          (''to_branch'', dict_get base ''ref'' (PStr ''unknown'')),
          (''timestamp'', PStr (utcnow_isoformat e))]"
  using assms by (simp add: pr_merged_event_def dict_get_as_obj)

lemma pr_opened_event_action:
  "pr_opened_event e x = Inr d \<Longrightarrow> map_of d ''action'' = Some (PStr ''PULL_REQUEST'')"
  by (auto simp: pr_opened_event_def bind_exn_eq_Inr)

lemma pr_merged_event_action:
  "pr_merged_event e x = Inr d \<Longrightarrow> map_of d ''action'' = Some (PStr ''MERGE'')"
  by (auto simp: pr_merged_event_def bind_exn_eq_Inr)

lemma push_event_action:
  "push_event e x = Inr d \<Longrightarrow> map_of d ''action'' = Some (PStr ''PUSH'')"
  by (auto simp: push_event_def bind_exn_eq_Inr)


lemma as_obj_iff: "(as_obj (map_of p k) = Some x) = (dict_get p k (PDict []) = PDict x)"
  by (cases "map_of p k" rule: as_obj.cases) (auto simp: dict_get_def)









text \<open>
  Claim C3, as amended. For a \<open>push\<close> event whose payload is a JSON object with \<open>pusher\<close>
  absent or an object and \<open>ref\<close> absent or a string, the normalisation yields the event
  with action \<open>PUSH\<close>, \<open>request_id\<close> the payload's \<open>after\<close> (\<open>unknown\<close> when absent), \<open>author\<close>
  the \<open>name\<close> of \<open>pusher\<close> (\<open>Unknown\<close> when absent), \<open>from_branch\<close> \<open>None\<close>, and \<open>to_branch\<close>
  the \<open>ref\<close> without its leading \<open>refs/heads/\<close> (the empty string when \<open>ref\<close> is absent),
  provided \<open>refs/heads/\<close> does not occur again in what follows that prefix. The source
  calls \<open>replace\<close>, which removes every occurrence; what it yields on a \<open>ref\<close> with a
  second occurrence is left open here.
\<close>

theorem push_normalized:
  assumes "as_obj (map_of p ''pusher'') = Some pusher"
    and "dict_get p ''ref'' (PStr []) = PStr ref"
    and "\<not> occurs_in ''refs/heads/'' (removeprefix ''refs/heads/'' ref)"
  shows "event_data e (Some ''push'') (PDict p) =
           Inr (Some [(''request_id'', dict_get p ''after'' (PStr ''unknown'')),
                      (''author'', dict_get pusher ''name'' (PStr ''Unknown'')),
                      (''action'', PStr ''PUSH''),
                      (''from_branch'', PNone),
                      (''to_branch'', PStr (removeprefix ''refs/heads/'' ref)),
                      (''timestamp'', PStr (utcnow_isoformat e))])"
  using assms
  by (simp add: event_data_def push_event_dict dict_get_as_obj str_replace_removeprefix)

text \<open>
  Claim C5, as amended. For a \<open>pull_request\<close> event whose payload is a JSON object with
  the action \<open>opened\<close> or \<open>reopened\<close>, with \<open>pull_request\<close> absent or an object and, in it,
  \<open>user\<close>, \<open>head\<close> and \<open>base\<close> each absent or an object, the normalisation yields the
  event with action \<open>PULL_REQUEST\<close>, \<open>request_id\<close> the \<open>str\<close> of the pull request's \<open>id\<close>
  (\<open>unknown\<close> when absent), \<open>author\<close> the \<open>login\<close> of \<open>user\<close> (\<open>Unknown\<close> when absent),
  \<open>from_branch\<close> the \<open>ref\<close> of \<open>head\<close> and \<open>to_branch\<close> the \<open>ref\<close> of \<open>base\<close> (\<open>unknown\<close> when
  absent).
\<close>

theorem pull_request_opened_normalized:
  assumes "map_of p ''action'' = Some (PStr ''opened'') \<or> map_of p ''action'' = Some (PStr ''reopened'')"
    and "as_obj (map_of p ''pull_request'') = Some pr"
    and "as_obj (map_of pr ''user'') = Some user"
    and "as_obj (map_of pr ''head'') = Some head"
    and "as_obj (map_of pr ''base'') = Some base"
  shows "event_data e (Some ''pull_request'') (PDict p) =
           Inr (Some [(''request_id'',
                         PStr (case map_of pr ''id'' of
                                 None \<Rightarrow> ''unknown''
                               | Some v \<Rightarrow> py_str (builtin_repr e) v)),
                      (''author'', dict_get user ''login'' (PStr ''Unknown'')),
                      (''action'', PStr ''PULL_REQUEST''),
                      (''from_branch'', dict_get head ''ref'' (PStr ''unknown'')),
                      (''to_branch'', dict_get base ''ref'' (PStr ''unknown'')),
                      (''timestamp'', PStr (utcnow_isoformat e))])"
proof -
  have "py_str (builtin_repr e) (dict_get pr ''id'' (PStr ''unknown''))
          = (case map_of pr ''id'' of None \<Rightarrow> ''unknown'' | Some v \<Rightarrow> py_str (builtin_repr e) v)"
    by (simp add: dict_get_def split: option.splits)
  then show ?thesis
    using assms(1) pr_opened_event_dict [OF assms(3-5), of e] dict_get_as_obj [OF assms(2)]
    by (auto simp: event_data_def pull_request_event_dict)
qed

text \<open>
  Claim C4, as amended. For a \<open>pull_request\<close> event the normalisation yields an event
  with action \<open>MERGE\<close> only when the payload is an object whose action is \<open>closed\<close> and
  whose pull request's \<open>merged\<close> is true in Python's sense (anything but \<open>null\<close>, \<open>false\<close>,
  zero and the empty string, array and object). It does yield it then, when in the
  pull request \<open>merged_by\<close>, \<open>head\<close> and \<open>base\<close> are each absent or an object: the event has
  \<open>request_id\<close> the \<open>merge_commit_sha\<close> (\<open>unknown\<close> when absent), \<open>author\<close> the \<open>login\<close> of
  \<open>merged_by\<close> (\<open>Unknown\<close> when absent), \<open>from_branch\<close> the \<open>ref\<close> of \<open>head\<close> and \<open>to_branch\<close> the
  \<open>ref\<close> of \<open>base\<close> (\<open>unknown\<close> when absent). With the action \<open>closed\<close> and \<open>merged\<close> false or
  absent, on a pull request that is absent or an object, it yields nothing, whatever
  \<open>merged_by\<close>, \<open>head\<close> and \<open>base\<close> are.
\<close>

theorem pull_request_merged_normalized:
  "(event_data e (Some ''pull_request'') payload = Inr (Some d)
      \<and> map_of d ''action'' = Some (PStr ''MERGE'')
     \<longrightarrow> (\<exists>p pr. payload = PDict p \<and> map_of p ''action'' = Some (PStr ''closed'')
               \<and> as_obj (map_of p ''pull_request'') = Some pr
               \<and> truthy (dict_get pr ''merged'' PNone)))
   \<and> (map_of p ''action'' = Some (PStr ''closed'')
       \<and> as_obj (map_of p ''pull_request'') = Some pr
       \<and> truthy (dict_get pr ''merged'' PNone)
       \<and> as_obj (map_of pr ''merged_by'') = Some merged_by
       \<and> as_obj (map_of pr ''head'') = Some head
       \<and> as_obj (map_of pr ''base'') = Some base
     \<longrightarrow> event_data e (Some ''pull_request'') (PDict p) =
           Inr (Some [(''request_id'', dict_get pr ''merge_commit_sha'' (PStr ''unknown'')),
                      (''author'', dict_get merged_by ''login'' (PStr ''Unknown'')),
                      (''action'', PStr ''MERGE''),
                      (''from_branch'', dict_get head ''ref'' (PStr ''unknown'')),
                      (''to_branch'', dict_get base ''ref'' (PStr ''unknown'')),
                      (''timestamp'', PStr (utcnow_isoformat e))]))
   \<and> (map_of p ''action'' = Some (PStr ''closed'')
       \<and> as_obj (map_of p ''pull_request'') = Some pr
       \<and> \<not> truthy (dict_get pr ''merged'' PNone)
     \<longrightarrow> event_data e (Some ''pull_request'') (PDict p) = Inr None)"
proof (intro conjI impI)
  assume a: "event_data e (Some ''pull_request'') payload = Inr (Some d)
      \<and> map_of d ''action'' = Some (PStr ''MERGE'')"
  then have pe: "pull_request_event e payload = Inr (Some d)"
    by (simp add: event_data_def)
  then obtain p where p: "payload = PDict p"
    by (auto simp: pull_request_event_def bind_exn_eq_Inr py_get_eq_Inr)
  from pe p a pr_opened_event_action [of e _ d]
  have "map_of p ''action'' = Some (PStr ''closed'')
        \<and> (\<exists>pr. dict_get p ''pull_request'' (PDict []) = PDict pr
               \<and> truthy (dict_get pr ''merged'' PNone))"
    by (auto simp: pull_request_event_dict bind_exn_eq_Inr py_get_eq_Inr split: if_splits)
  with p show "\<exists>p pr. payload = PDict p \<and> map_of p ''action'' = Some (PStr ''closed'')
               \<and> as_obj (map_of p ''pull_request'') = Some pr
               \<and> truthy (dict_get pr ''merged'' PNone)"
    by (auto simp: as_obj_iff)
next
  assume "map_of p ''action'' = Some (PStr ''closed'')
       \<and> as_obj (map_of p ''pull_request'') = Some pr
       \<and> truthy (dict_get pr ''merged'' PNone)
       \<and> as_obj (map_of pr ''merged_by'') = Some merged_by
       \<and> as_obj (map_of pr ''head'') = Some head
       \<and> as_obj (map_of pr ''base'') = Some base"
  then show "event_data e (Some ''pull_request'') (PDict p) =
           Inr (Some [(''request_id'', dict_get pr ''merge_commit_sha'' (PStr ''unknown'')),
                      (''author'', dict_get merged_by ''login'' (PStr ''Unknown'')),
                      (''action'', PStr ''MERGE''),
                      (''from_branch'', dict_get head ''ref'' (PStr ''unknown'')),
                      (''to_branch'', dict_get base ''ref'' (PStr ''unknown'')),
                      (''timestamp'', PStr (utcnow_isoformat e))])"
    using pr_merged_event_dict [of pr merged_by head base e]
    by (simp add: event_data_def pull_request_event_dict dict_get_as_obj)
next
  assume "map_of p ''action'' = Some (PStr ''closed'')
       \<and> as_obj (map_of p ''pull_request'') = Some pr
       \<and> \<not> truthy (dict_get pr ''merged'' PNone)"
  then show "event_data e (Some ''pull_request'') (PDict p) = Inr None"
    by (simp add: event_data_def pull_request_event_dict dict_get_as_obj)
qed

section \<open>What is handed to the collection\<close>

lemma event_data_cases:
  assumes "event_data e et payload = Inr (Some d)"
  shows "(\<exists>p pusher ref. payload = PDict p \<and> et = Some ''push''
            \<and> dict_get p ''pusher'' (PDict []) = PDict pusher
            \<and> dict_get p ''ref'' (PStr []) = PStr ref
            \<and> d = [(''request_id'', dict_get p ''after'' (PStr ''unknown'')),
                   (''author'', dict_get pusher ''name'' (PStr ''Unknown'')),
                   (''action'', PStr ''PUSH''),
                   (''from_branch'', PNone),
                   (''to_branch'', PStr (str_replace ''refs/heads/'' [] ref)),
                   (''timestamp'', PStr (utcnow_isoformat e))])
         \<or> (\<exists>p pr user head base. payload = PDict p \<and> et = Some ''pull_request''
            \<and> dict_get p ''pull_request'' (PDict []) = PDict pr
            \<and> dict_get pr ''user'' (PDict []) = PDict user
            \<and> dict_get pr ''head'' (PDict []) = PDict head
            \<and> dict_get pr ''base'' (PDict []) = PDict base
            \<and> d = [(''request_id'', PStr (py_str (builtin_repr e) (dict_get pr ''id'' (PStr ''unknown'')))),
                   (''author'', dict_get user ''login'' (PStr ''Unknown'')),
                   (''action'', PStr ''PULL_REQUEST''),
                   (''from_branch'', dict_get head ''ref'' (PStr ''unknown'')),
                   (''to_branch'', dict_get base ''ref'' (PStr ''unknown'')),
                   (''timestamp'', PStr (utcnow_isoformat e))])
         \<or> (\<exists>p pr merged_by head base. payload = PDict p \<and> et = Some ''pull_request''
            \<and> dict_get p ''pull_request'' (PDict []) = PDict pr
            \<and> dict_get pr ''merged_by'' (PDict []) = PDict merged_by
            \<and> dict_get pr ''head'' (PDict []) = PDict head
            \<and> dict_get pr ''base'' (PDict []) = PDict base
            \<and> d = [(''request_id'', dict_get pr ''merge_commit_sha'' (PStr ''unknown'')),
                   (''author'', dict_get merged_by ''login'' (PStr ''Unknown'')),
                   (''action'', PStr ''MERGE''),
                   (''from_branch'', dict_get head ''ref'' (PStr ''unknown'')),
                   (''to_branch'', dict_get base ''ref'' (PStr ''unknown'')),
                   (''timestamp'', PStr (utcnow_isoformat e))])"
proof (cases "et = Some ''push''")
  case True
  with assms show ?thesis
    by (auto simp: event_data_def push_event_def bind_exn_eq_Inr py_get_eq_Inr py_replace_eq_Inr)
next
  case False
  with assms have et: "et = Some ''pull_request''" and pe: "pull_request_event e payload = Inr (Some d)"
    by (auto simp: event_data_def split: if_splits)
  from pe obtain p where p: "payload = PDict p"
    by (auto simp: pull_request_event_def bind_exn_eq_Inr py_get_eq_Inr)
  from pe p show ?thesis
    using et
    by (auto simp: pull_request_event_dict pr_opened_event_def pr_merged_event_def
        bind_exn_eq_Inr py_get_eq_Inr split: if_splits)
qed

lemma receiver_inserts:
  assumes "receiver e req coll = (r, coll @ [(i, d)])"
  shows "\<exists>payload. json req = Some payload \<and> event_data e (github_event req) payload = Inr (Some d)"
  using assms
  by (auto simp: receiver_def store_event_def insert_one_def
      split: sum.splits option.splits bool.splits if_splits)





lemma path_get_leaf: "(path_get (PDict p) [k] = Some PNone) = (map_of p k = Some PNone)"
  by (simp split: option.splits)

lemma path_get_nested:
  "dict_get p k (PDict []) = PDict x \<Longrightarrow>
   (path_get (PDict p) (k # k2 # ks) = Some PNone) = (path_get (PDict x) (k2 # ks) = Some PNone)"
  by (auto simp: dict_get_def split: option.splits)

lemma dict_get_null: "(dict_get p k (PStr s) = PNone) = (map_of p k = Some PNone)"
  by (simp add: dict_get_def split: option.splits)


lemma null_leaf2:
  "dict_get p k (PDict []) = PDict x \<Longrightarrow>
   (dict_get x k2 (PStr s) = PNone) = (path_get (PDict p) [k, k2] = Some PNone)"
  by (simp add: path_get_nested path_get_leaf dict_get_null del: path_get.simps)

lemma null_leaf3:
  "dict_get p k (PDict []) = PDict x \<Longrightarrow> dict_get x k2 (PDict []) = PDict y \<Longrightarrow>
   (dict_get y k3 (PStr s) = PNone) = (path_get (PDict p) [k, k2, k3] = Some PNone)"
  by (simp add: path_get_nested path_get_leaf dict_get_null del: path_get.simps)

lemma null_leaf1:
  "(dict_get p k (PStr s) = PNone) = (path_get (PDict p) [k] = Some PNone)"
  by (simp add: path_get_leaf dict_get_null del: path_get.simps)

text \<open>
  Claim C6, as amended. Every record \<open>receiver\<close> inserts has the six fields and an
  action that is exactly one of \<open>PUSH\<close>, \<open>PULL_REQUEST\<close> and \<open>MERGE\<close>. Its action and its
  timestamp (the clock's string) are never \<open>None\<close>; a \<open>PUSH\<close> record has \<open>from_branch\<close>
  \<open>None\<close> and a string \<open>to_branch\<close>; a \<open>PULL_REQUEST\<close> record has a string \<open>request_id\<close>.
  Every other field is \<open>None\<close> exactly when the value it is copied from is an explicit
  JSON \<open>null\<close> in the payload: \<open>after\<close> and \<open>pusher.name\<close> for a push, and in
  \<open>pull_request\<close> \<open>user.login\<close>, \<open>merged_by.login\<close>, \<open>merge_commit_sha\<close>, \<open>head.ref\<close> and
  \<open>base.ref\<close>: \<open>get\<close> falls back on its default only for an absent key. A \<open>null\<close>
  anywhere else in the payload does not matter.
\<close>

theorem inserted_event_fields:
  assumes "receiver e req coll = (r, coll @ [(i, d)])" and "json req = Some payload"
  shows "map fst d = [''request_id'', ''author'', ''action'', ''from_branch'', ''to_branch'', ''timestamp'']
         \<and> (map_of d ''action'' = Some (PStr ''PUSH'')
              \<or> map_of d ''action'' = Some (PStr ''PULL_REQUEST'')
              \<or> map_of d ''action'' = Some (PStr ''MERGE''))
         \<and> map_of d ''timestamp'' = Some (PStr (utcnow_isoformat e))
         \<and> (map_of d ''action'' = Some (PStr ''PUSH'') \<longrightarrow>
               map_of d ''from_branch'' = Some PNone
               \<and> is_str (dict_get d ''to_branch'' PNone)
               \<and> (map_of d ''request_id'' = Some PNone)
                   = (path_get payload [''after''] = Some PNone)
               \<and> (map_of d ''author'' = Some PNone)
                   = (path_get payload [''pusher'', ''name''] = Some PNone))
         \<and> (map_of d ''action'' = Some (PStr ''PULL_REQUEST'') \<longrightarrow>
               is_str (dict_get d ''request_id'' PNone)
               \<and> (map_of d ''author'' = Some PNone)
                   = (path_get payload [''pull_request'', ''user'', ''login''] = Some PNone)
               \<and> (map_of d ''from_branch'' = Some PNone)
                   = (path_get payload [''pull_request'', ''head'', ''ref''] = Some PNone)
               \<and> (map_of d ''to_branch'' = Some PNone)
                   = (path_get payload [''pull_request'', ''base'', ''ref''] = Some PNone))
         \<and> (map_of d ''action'' = Some (PStr ''MERGE'') \<longrightarrow>
               (map_of d ''request_id'' = Some PNone)
                   = (path_get payload [''pull_request'', ''merge_commit_sha''] = Some PNone)
               \<and> (map_of d ''author'' = Some PNone)
                   = (path_get payload [''pull_request'', ''merged_by'', ''login''] = Some PNone)
               \<and> (map_of d ''from_branch'' = Some PNone)
                   = (path_get payload [''pull_request'', ''head'', ''ref''] = Some PNone)
               \<and> (map_of d ''to_branch'' = Some PNone)
                   = (path_get payload [''pull_request'', ''base'', ''ref''] = Some PNone))"
proof -
  from receiver_inserts [OF assms(1)] assms(2)
  have ev: "event_data e (github_event req) payload = Inr (Some d)"
    by auto
  from event_data_cases [OF ev] show ?thesis
  proof (elim disjE exE conjE)
    fix p pusher ref
    assume a: "payload = PDict p" "dict_get p ''pusher'' (PDict []) = PDict pusher"
      and d: "d = [(''request_id'', dict_get p ''after'' (PStr ''unknown'')),
                   (''author'', dict_get pusher ''name'' (PStr ''Unknown'')),
                   (''action'', PStr ''PUSH''),
                   (''from_branch'', PNone),
                   (''to_branch'', PStr (str_replace ''refs/heads/'' [] ref)),
                   (''timestamp'', PStr (utcnow_isoformat e))]"
    show ?thesis
      using null_leaf1 [of p "''after''" "''unknown''"]
        null_leaf2 [OF a(2), of "''name''" "''Unknown''"]
      by (simp add: d a(1) dict_get_def)
  next
    fix p pr user head base
    assume a: "payload = PDict p" "dict_get p ''pull_request'' (PDict []) = PDict pr"
      "dict_get pr ''user'' (PDict []) = PDict user"
      "dict_get pr ''head'' (PDict []) = PDict head"
      "dict_get pr ''base'' (PDict []) = PDict base"
      and d: "d = [(''request_id'', PStr (py_str (builtin_repr e) (dict_get pr ''id'' (PStr ''unknown'')))),
                   (''author'', dict_get user ''login'' (PStr ''Unknown'')),
                   (''action'', PStr ''PULL_REQUEST''),
                   (''from_branch'', dict_get head ''ref'' (PStr ''unknown'')),
                   (''to_branch'', dict_get base ''ref'' (PStr ''unknown'')),
                   (''timestamp'', PStr (utcnow_isoformat e))]"
    show ?thesis
      using null_leaf3 [OF a(2) a(3), of "''login''" "''Unknown''"]
        null_leaf3 [OF a(2) a(4), of "''ref''" "''unknown''"]
        null_leaf3 [OF a(2) a(5), of "''ref''" "''unknown''"]
      by (simp add: d a(1) dict_get_def)
  next
    fix p pr merged_by head base
    assume a: "payload = PDict p" "dict_get p ''pull_request'' (PDict []) = PDict pr"
      "dict_get pr ''merged_by'' (PDict []) = PDict merged_by"
      "dict_get pr ''head'' (PDict []) = PDict head"
      "dict_get pr ''base'' (PDict []) = PDict base"
      and d: "d = [(''request_id'', dict_get pr ''merge_commit_sha'' (PStr ''unknown'')),
                   (''author'', dict_get merged_by ''login'' (PStr ''Unknown'')),
                   (''action'', PStr ''MERGE''),
                   (''from_branch'', dict_get head ''ref'' (PStr ''unknown'')),
                   (''to_branch'', dict_get base ''ref'' (PStr ''unknown'')),
                   (''timestamp'', PStr (utcnow_isoformat e))]"
    show ?thesis
      using null_leaf2 [OF a(2), of "''merge_commit_sha''" "''unknown''"]
        null_leaf3 [OF a(2) a(3), of "''login''" "''Unknown''"]
        null_leaf3 [OF a(2) a(4), of "''ref''" "''unknown''"]
        null_leaf3 [OF a(2) a(5), of "''ref''" "''unknown''"]
      by (simp add: d a(1) dict_get_def)
  qed
qed

section \<open>The normalisation and the insert at concrete payloads\<close>

text \<open>
  The payloads of the specification's examples, run in the example environment, and
  the payloads at which the claims as written fail: a \<open>ref\<close> in which \<open>refs/heads/\<close>
  occurs twice, a \<open>pull_request\<close> that is \<open>null\<close>, a \<open>merged\<close> that is the string \<open>false\<close>, an
  \<open>after\<close> that is \<open>null\<close>.
\<close>

lemma str_int_42: "str_int 42 = ''42''"
  by code_simp

theorem push_normalized_witness:
  "as_obj (map_of [(''after'', PStr ''sha1''), (''pusher'', PDict [(''name'', PStr ''alice'')]),
                   (''ref'', PStr ''refs/heads/main'')] ''pusher'') = Some [(''name'', PStr ''alice'')]
   \<and> \<not> occurs_in ''refs/heads/'' (removeprefix ''refs/heads/'' ''refs/heads/main'')
   \<and> event_data open_env (Some ''push'')
        (PDict [(''after'', PStr ''sha1''), (''pusher'', PDict [(''name'', PStr ''alice'')]),
                (''ref'', PStr ''refs/heads/main'')])
       = Inr (Some [(''request_id'', PStr ''sha1''),
                    (''author'', PStr ''alice''),
                    (''action'', PStr ''PUSH''),
                    (''from_branch'', PNone),
                    (''to_branch'', PStr ''main''),
                    (''timestamp'', PStr ''2024-01-01T12:00:00.000000'')])
   \<and> event_data open_env (Some ''push'') (PDict [(''zen'', PStr ''Keep it simple'')])
       = Inr (Some [(''request_id'', PStr ''unknown''),
                    (''author'', PStr ''Unknown''),
                    (''action'', PStr ''PUSH''),
                    (''from_branch'', PNone),
                    (''to_branch'', PStr []),
                    (''timestamp'', PStr ''2024-01-01T12:00:00.000000'')])"
  using push_normalized [where e = open_env
      and p = "[(''after'', PStr ''sha1''), (''pusher'', PDict [(''name'', PStr ''alice'')]),
                (''ref'', PStr ''refs/heads/main'')]"
      and pusher = "[(''name'', PStr ''alice'')]" and ref = "''refs/heads/main''"]
    push_normalized [where e = open_env and p = "[(''zen'', PStr ''Keep it simple'')]"
      and pusher = "[]" and ref = "[]"]
  by (simp add: dict_get_def removeprefix_def)

theorem push_normalized_counterexample:
  "event_data open_env (Some ''push'')
     (PDict [(''after'', PStr ''sha1''), (''pusher'', PDict [(''name'', PStr ''alice'')]),
             (''ref'', PStr ''refs/heads/fix/refs/heads/main'')])
   = Inr (Some [(''request_id'', PStr ''sha1''),
                (''author'', PStr ''alice''),
                (''action'', PStr ''PUSH''),
                (''from_branch'', PNone),
                (''to_branch'', PStr ''fix/main''),
                (''timestamp'', PStr ''2024-01-01T12:00:00.000000'')])
   \<and> removeprefix ''refs/heads/'' ''refs/heads/fix/refs/heads/main'' = ''fix/refs/heads/main''
   \<and> event_data open_env (Some ''push'')
        (PDict [(''after'', PStr ''sha1''), (''pusher'', PNone), (''ref'', PStr ''refs/heads/main'')])
       = Inl AttributeError"
  by (simp add: event_data_def push_event_dict dict_get_def replace_twice removeprefix_def)

theorem pull_request_opened_normalized_witness:
  "as_obj (map_of [(''action'', PStr ''opened''),
                   (''pull_request'', PDict [(''id'', PInt 42), (''user'', PDict [(''login'', PStr ''bob'')]),
                      (''head'', PDict [(''ref'', PStr ''feat'')]),
                      (''base'', PDict [(''ref'', PStr ''main'')])])] ''pull_request'')
     = Some [(''id'', PInt 42), (''user'', PDict [(''login'', PStr ''bob'')]),
             (''head'', PDict [(''ref'', PStr ''feat'')]), (''base'', PDict [(''ref'', PStr ''main'')])]
   \<and> event_data open_env (Some ''pull_request'')
        (PDict [(''action'', PStr ''opened''),
                (''pull_request'', PDict [(''id'', PInt 42), (''user'', PDict [(''login'', PStr ''bob'')]),
                   (''head'', PDict [(''ref'', PStr ''feat'')]),
                   (''base'', PDict [(''ref'', PStr ''main'')])])])
       = Inr (Some [(''request_id'', PStr ''42''),
                    (''author'', PStr ''bob''),
                    (''action'', PStr ''PULL_REQUEST''),
                    (''from_branch'', PStr ''feat''),
                    (''to_branch'', PStr ''main''),
                    (''timestamp'', PStr ''2024-01-01T12:00:00.000000'')])
   \<and> event_data open_env (Some ''pull_request'') (PDict [(''action'', PStr ''reopened'')])
       = Inr (Some [(''request_id'', PStr ''unknown''),
                    (''author'', PStr ''Unknown''),
                    (''action'', PStr ''PULL_REQUEST''),
                    (''from_branch'', PStr ''unknown''),
                    (''to_branch'', PStr ''unknown''),
                    (''timestamp'', PStr ''2024-01-01T12:00:00.000000'')])"
  using pull_request_opened_normalized [where e = open_env
      and p = "[(''action'', PStr ''opened''),
                (''pull_request'', PDict [(''id'', PInt 42), (''user'', PDict [(''login'', PStr ''bob'')]),
                   (''head'', PDict [(''ref'', PStr ''feat'')]),
                   (''base'', PDict [(''ref'', PStr ''main'')])])]"
      and pr = "[(''id'', PInt 42), (''user'', PDict [(''login'', PStr ''bob'')]),
                 (''head'', PDict [(''ref'', PStr ''feat'')]), (''base'', PDict [(''ref'', PStr ''main'')])]"
      and user = "[(''login'', PStr ''bob'')]" and head = "[(''ref'', PStr ''feat'')]"
      and base = "[(''ref'', PStr ''main'')]"]
    pull_request_opened_normalized [where e = open_env and p = "[(''action'', PStr ''reopened'')]"
      and pr = "[]" and user = "[]" and head = "[]" and base = "[]"]
  by (simp add: dict_get_def str_int_42)

theorem pull_request_opened_normalized_counterexample:
  "event_data open_env (Some ''pull_request'')
     (PDict [(''action'', PStr ''opened''), (''pull_request'', PNone)]) = Inl AttributeError
   \<and> event_data open_env (Some ''pull_request'')
        (PDict [(''action'', PStr ''opened''),
                (''pull_request'', PDict [(''id'', PInt 42), (''user'', PStr ''bob'')])])
       = Inl AttributeError"
  by (simp add: event_data_def pull_request_event_dict dict_get_def pr_opened_event_def)

theorem pull_request_merged_normalized_witness:
  "as_obj (map_of [(''action'', PStr ''closed''),
                   (''pull_request'', PDict [(''merged'', PBool True), (''merge_commit_sha'', PStr ''sha9''),
                      (''merged_by'', PDict [(''login'', PStr ''carol'')])])] ''pull_request'')
     = Some [(''merged'', PBool True), (''merge_commit_sha'', PStr ''sha9''),
             (''merged_by'', PDict [(''login'', PStr ''carol'')])]
   \<and> event_data open_env (Some ''pull_request'')
        (PDict [(''action'', PStr ''closed''),
                (''pull_request'', PDict [(''merged'', PBool True), (''merge_commit_sha'', PStr ''sha9''),
                   (''merged_by'', PDict [(''login'', PStr ''carol'')])])])
       = Inr (Some [(''request_id'', PStr ''sha9''),
                    (''author'', PStr ''carol''),
                    (''action'', PStr ''MERGE''),
                    (''from_branch'', PStr ''unknown''),
                    (''to_branch'', PStr ''unknown''),
                    (''timestamp'', PStr ''2024-01-01T12:00:00.000000'')])
   \<and> \<not> truthy (dict_get [(''merged'', PBool False), (''merged_by'', PNone)] ''merged'' PNone)
   \<and> event_data open_env (Some ''pull_request'')
        (PDict [(''action'', PStr ''closed''),
                (''pull_request'', PDict [(''merged'', PBool False), (''merged_by'', PNone)])])
       = Inr None"
  using pull_request_merged_normalized [where e = open_env
      and p = "[(''action'', PStr ''closed''),
                (''pull_request'', PDict [(''merged'', PBool True), (''merge_commit_sha'', PStr ''sha9''),
                   (''merged_by'', PDict [(''login'', PStr ''carol'')])])]"
      and pr = "[(''merged'', PBool True), (''merge_commit_sha'', PStr ''sha9''),
                 (''merged_by'', PDict [(''login'', PStr ''carol'')])]"
      and merged_by = "[(''login'', PStr ''carol'')]" and head = "[]" and base = "[]"]
    pull_request_merged_normalized [where e = open_env
      and p = "[(''action'', PStr ''closed''),
                (''pull_request'', PDict [(''merged'', PBool False), (''merged_by'', PNone)])]"
      and pr = "[(''merged'', PBool False), (''merged_by'', PNone)]"]
  by (simp add: dict_get_def)

theorem pull_request_merged_normalized_counterexample:
  "event_data open_env (Some ''pull_request'')
     (PDict [(''action'', PStr ''closed''),
             (''pull_request'', PDict [(''merged'', PStr ''false''), (''merge_commit_sha'', PStr ''sha9''),
                (''merged_by'', PDict [(''login'', PStr ''carol'')])])])
   = Inr (Some [(''request_id'', PStr ''sha9''),
                (''author'', PStr ''carol''),
                (''action'', PStr ''MERGE''),
                (''from_branch'', PStr ''unknown''),
                (''to_branch'', PStr ''unknown''),
                (''timestamp'', PStr ''2024-01-01T12:00:00.000000'')])
   \<and> PStr ''false'' \<noteq> PBool True
   \<and> event_data open_env (Some ''pull_request'')
        (PDict [(''action'', PStr ''closed''),
                (''pull_request'', PDict [(''merged'', PBool True), (''merge_commit_sha'', PStr ''sha9''),
                   (''merged_by'', PNone)])])
       = Inl AttributeError
   \<and> event_data open_env (Some ''pull_request'')
        (PDict [(''action'', PStr ''closed''), (''pull_request'', PNone)])
       = Inl AttributeError"
  by (simp add: event_data_def pull_request_event_dict dict_get_def pr_merged_event_def)

theorem inserted_event_fields_counterexample:
  "receiver open_env
     (unsigned_request (Some ''push'')
        (PDict [(''after'', PNone), (''pusher'', PDict [(''name'', PStr ''alice'')]),
                (''ref'', PStr ''refs/heads/main'')])) []
   = (Inr \<lparr>status = 200,
            body = PDict [(''status'', PStr ''success''), (''id'', PStr ''507f1f77bcf86cd799439011'')]\<rparr>,
      [(0x507f1f77bcf86cd799439011,
        [(''request_id'', PNone),
         (''author'', PStr ''alice''),
         (''action'', PStr ''PUSH''),
         (''from_branch'', PNone),
         (''to_branch'', PStr ''main''),
         (''timestamp'', PStr ''2024-01-01T12:00:00.000000'')])])
   \<and> receiver open_env
     (unsigned_request (Some ''pull_request'')
        (PDict [(''action'', PStr ''opened''),
                (''pull_request'', PDict [(''id'', PInt 42), (''head'', PDict [(''ref'', PNone)])])])) []
   = (Inr \<lparr>status = 200,
            body = PDict [(''status'', PStr ''success''), (''id'', PStr ''507f1f77bcf86cd799439011'')]\<rparr>,
      [(0x507f1f77bcf86cd799439011,
        [(''request_id'', PStr ''42''),
         (''author'', PStr ''Unknown''),
         (''action'', PStr ''PULL_REQUEST''),
         (''from_branch'', PNone),
         (''to_branch'', PStr ''unknown''),
         (''timestamp'', PStr ''2024-01-01T12:00:00.000000'')])])"
  by (simp add: receiver_parsed event_data_def push_event_dict dict_get_def replace_main
      pull_request_event_dict pr_opened_event_def str_int_42
      store_event_def insert_one_def str_oid_example)

theorem inserted_event_fields_witness:
  "receiver open_env
     (unsigned_request (Some ''push'')
        (PDict [(''after'', PStr ''sha1''), (''pusher'', PDict [(''name'', PStr ''alice'')]),
                (''ref'', PStr ''refs/heads/main''), (''base_ref'', PNone)])) []
   = (Inr \<lparr>status = 200,
            body = PDict [(''status'', PStr ''success''), (''id'', PStr ''507f1f77bcf86cd799439011'')]\<rparr>,
      [] @ [(0x507f1f77bcf86cd799439011,
        [(''request_id'', PStr ''sha1''),
         (''author'', PStr ''alice''),
         (''action'', PStr ''PUSH''),
         (''from_branch'', PNone),
         (''to_branch'', PStr ''main''),
         (''timestamp'', PStr ''2024-01-01T12:00:00.000000'')])])
   \<and> json (unsigned_request (Some ''push'')
        (PDict [(''after'', PStr ''sha1''), (''pusher'', PDict [(''name'', PStr ''alice'')]),
                (''ref'', PStr ''refs/heads/main''), (''base_ref'', PNone)]))
       = Some (PDict [(''after'', PStr ''sha1''), (''pusher'', PDict [(''name'', PStr ''alice'')]),
                (''ref'', PStr ''refs/heads/main''), (''base_ref'', PNone)])
   \<and> path_get (PDict [(''after'', PStr ''sha1''), (''pusher'', PDict [(''name'', PStr ''alice'')]),
                (''ref'', PStr ''refs/heads/main''), (''base_ref'', PNone)]) [''after'']
       \<noteq> Some PNone
   \<and> path_get (PDict [(''after'', PStr ''sha1''), (''pusher'', PDict [(''name'', PStr ''alice'')]),
                (''ref'', PStr ''refs/heads/main''), (''base_ref'', PNone)]) [''pusher'', ''name'']
       \<noteq> Some PNone"
proof -
  have r: "receiver open_env
     (unsigned_request (Some ''push'')
        (PDict [(''after'', PStr ''sha1''), (''pusher'', PDict [(''name'', PStr ''alice'')]),
                (''ref'', PStr ''refs/heads/main''), (''base_ref'', PNone)])) []
   = (Inr \<lparr>status = 200,
            body = PDict [(''status'', PStr ''success''), (''id'', PStr ''507f1f77bcf86cd799439011'')]\<rparr>,
      [] @ [(0x507f1f77bcf86cd799439011,
        [(''request_id'', PStr ''sha1''),
         (''author'', PStr ''alice''),
         (''action'', PStr ''PUSH''),
         (''from_branch'', PNone),
         (''to_branch'', PStr ''main''),
         (''timestamp'', PStr ''2024-01-01T12:00:00.000000'')])])"
    by (simp add: receiver_parsed event_data_def push_event_dict dict_get_def replace_main
        store_event_def insert_one_def str_oid_example)
  have j: "json (unsigned_request (Some ''push'')
        (PDict [(''after'', PStr ''sha1''), (''pusher'', PDict [(''name'', PStr ''alice'')]),
                (''ref'', PStr ''refs/heads/main''), (''base_ref'', PNone)]))
       = Some (PDict [(''after'', PStr ''sha1''), (''pusher'', PDict [(''name'', PStr ''alice'')]),
                (''ref'', PStr ''refs/heads/main''), (''base_ref'', PNone)])"
    by simp
  from inserted_event_fields [OF r j] r j show ?thesis
    by simp
qed

section \<open>Normalisation of payloads with missing parts\<close>










section \<open>The documents of the collection\<close>

text \<open>
  Every request leaves the collection as it was or appends one document, and a payload
  that came out of the JSON parser gives a document that \<open>jsonify\<close> can serialise, with a
  string timestamp.
\<close>

lemma receiver_collection:
  assumes "receiver e req coll = (r, coll')"
  shows "coll' = coll \<or> (\<exists>i d. coll' = coll @ [(i, d)])"
  using assms
  by (auto simp: receiver_def store_event_def insert_one_def
      split: sum.splits option.splits bool.splits if_splits)

lemma jsonable_field:
  "jsonable (PDict d) \<Longrightarrow> jsonable dflt \<Longrightarrow> jsonable (dict_get d k dflt)"
  by (auto simp: dict_get_def list_all_iff split: option.splits dest!: map_of_SomeD)

lemma event_data_stored_event:
  assumes "event_data e et payload = Inr (Some d)" and "jsonable payload"
  shows "stored_event d"
  using event_data_cases [OF assms(1)]
proof (elim disjE exE conjE)
  fix p pusher ref
  assume "payload = PDict p" "dict_get p ''pusher'' (PDict []) = PDict pusher"
    and d: "d = [(''request_id'', dict_get p ''after'' (PStr ''unknown'')),
                 (''author'', dict_get pusher ''name'' (PStr ''Unknown'')),
                 (''action'', PStr ''PUSH''),
                 (''from_branch'', PNone),
                 (''to_branch'', PStr (str_replace ''refs/heads/'' [] ref)),
                 (''timestamp'', PStr (utcnow_isoformat e))]"
  then show ?thesis
    using assms(2) jsonable_field [of p "PStr ''unknown''" "''after''"]
      jsonable_field [of p "PDict []" "''pusher''"]
      jsonable_field [of pusher "PStr ''Unknown''" "''name''"]
    by (simp add: stored_event_def dict_get_def)
next
  fix p pr user head base
  assume "payload = PDict p" "dict_get p ''pull_request'' (PDict []) = PDict pr"
    "dict_get pr ''user'' (PDict []) = PDict user"
    "dict_get pr ''head'' (PDict []) = PDict head"
    "dict_get pr ''base'' (PDict []) = PDict base"
    and d: "d = [(''request_id'', PStr (py_str (builtin_repr e) (dict_get pr ''id'' (PStr ''unknown'')))),
                 (''author'', dict_get user ''login'' (PStr ''Unknown'')),
                 (''action'', PStr ''PULL_REQUEST''),
                 (''from_branch'', dict_get head ''ref'' (PStr ''unknown'')),
                 (''to_branch'', dict_get base ''ref'' (PStr ''unknown'')),
                 (''timestamp'', PStr (utcnow_isoformat e))]"
  then show ?thesis
    using assms(2) jsonable_field [of p "PDict []" "''pull_request''"]
      jsonable_field [of pr "PDict []" "''user''"]
      jsonable_field [of pr "PDict []" "''head''"]
      jsonable_field [of pr "PDict []" "''base''"]
      jsonable_field [of user "PStr ''Unknown''" "''login''"]
      jsonable_field [of head "PStr ''unknown''" "''ref''"]
      jsonable_field [of base "PStr ''unknown''" "''ref''"]
    by (simp add: stored_event_def dict_get_def)
next
  fix p pr merged_by head base
  assume "payload = PDict p" "dict_get p ''pull_request'' (PDict []) = PDict pr"
    "dict_get pr ''merged_by'' (PDict []) = PDict merged_by"
    "dict_get pr ''head'' (PDict []) = PDict head"
    "dict_get pr ''base'' (PDict []) = PDict base"
    and d: "d = [(''request_id'', dict_get pr ''merge_commit_sha'' (PStr ''unknown'')),
                 (''author'', dict_get merged_by ''login'' (PStr ''Unknown'')),
                 (''action'', PStr ''MERGE''),
                 (''from_branch'', dict_get head ''ref'' (PStr ''unknown'')),
                 (''to_branch'', dict_get base ''ref'' (PStr ''unknown'')),
                 (''timestamp'', PStr (utcnow_isoformat e))]"
  then show ?thesis
    using assms(2) jsonable_field [of p "PDict []" "''pull_request''"]
      jsonable_field [of pr "PDict []" "''merged_by''"]
      jsonable_field [of pr "PDict []" "''head''"]
      jsonable_field [of pr "PDict []" "''base''"]
      jsonable_field [of pr "PStr ''unknown''" "''merge_commit_sha''"]
      jsonable_field [of merged_by "PStr ''Unknown''" "''login''"]
      jsonable_field [of head "PStr ''unknown''" "''ref''"]
      jsonable_field [of base "PStr ''unknown''" "''ref''"]
    by (simp add: stored_event_def dict_get_def)
qed

lemma receiver_keeps_stored_events:
  assumes "list_all (\<lambda>c. stored_event (snd c)) coll"
    and "case json req of None \<Rightarrow> True | Some payload \<Rightarrow> jsonable payload"
    and "receiver e req coll = (r, coll')"
  shows "list_all (\<lambda>c. stored_event (snd c)) coll'"
proof -
  from receiver_collection [OF assms(3)] show ?thesis
  proof (elim disjE exE)
    assume "coll' = coll"
    with assms(1) show ?thesis by simp
  next
    fix i d
    assume c: "coll' = coll @ [(i, d)]"
    with assms(3) receiver_inserts [of e req coll r i d] obtain payload where
      "json req = Some payload" "event_data e (github_event req) payload = Inr (Some d)"
      by auto
    with assms(2) have "stored_event d"
      using event_data_stored_event [of e "github_event req" payload d] by simp
    with assms(1) c show ?thesis by simp
  qed
qed

section \<open>The events query: the ten most recent\<close>

lemma set_insert_desc [simp]: "set (insert_desc d xs) = insert d (set xs)"
  by (induction xs) auto

lemma mset_insert_desc [simp]: "mset (insert_desc d xs) = add_mset d (mset xs)"
  by (induction xs) auto

lemma mset_sort_desc [simp]: "mset (sort_desc xs) = mset xs"
  by (induction xs) auto

lemma set_sort_desc [simp]: "set (sort_desc xs) = set xs"
  by (induction xs) auto

lemma length_insert_desc [simp]: "length (insert_desc d xs) = Suc (length xs)"
  by (induction xs) auto

lemma length_sort_desc [simp]: "length (sort_desc xs) = length xs"
  by (induction xs) auto

lemma sorted_insert_desc:
  "sorted_wrt (\<lambda>a b. timestamp_of b \<le> timestamp_of a) xs \<Longrightarrow>
   sorted_wrt (\<lambda>a b. timestamp_of b \<le> timestamp_of a) (insert_desc d xs)"
  by (induction xs) (auto intro: order_trans)

lemma sorted_sort_desc:
  "sorted_wrt (\<lambda>a b. timestamp_of b \<le> timestamp_of a) (sort_desc xs)"
  by (induction xs) (auto intro: sorted_insert_desc)

lemma timestamps_sort_desc:
  "map timestamp_of (sort_desc xs) = rev (sort (map timestamp_of xs))"
proof -
  have "sorted (rev (map timestamp_of (sort_desc xs)))"
    using sorted_sort_desc [of xs] by (simp add: sorted_wrt_rev sorted_wrt_map)
  moreover have "mset (rev (map timestamp_of (sort_desc xs))) = mset (map timestamp_of xs)"
    by simp
  ultimately have "sort (map timestamp_of xs) = rev (map timestamp_of (sort_desc xs))"
    by (rule properties_for_sort [rotated])
  then show ?thesis by simp
qed

lemma timestamp_of_id [simp]: "timestamp_of ((''_id'', v) # d) = timestamp_of d"
  by (simp add: timestamp_of_def)

lemma id_to_str_found:
  "id_to_str e ((''_id'', PObjectId i) # d) = Inr ((''_id'', PStr (str_oid i)) # d)"
  by (simp add: id_to_str_def)

lemma ids_to_str_found:
  "ids_to_str e (map (\<lambda>c. (''_id'', PObjectId (fst c)) # snd c) cs)
     = Inr (map (\<lambda>c. (''_id'', PStr (str_oid (fst c))) # snd c) cs)"
  by (induction cs) (simp_all add: id_to_str_found)

lemma find_all_map: "find_all coll = map (\<lambda>c. (''_id'', PObjectId (fst c)) # snd c) coll"
  by (simp add: find_all_def case_prod_beta)

lemma list_of_image:
  "set xs \<subseteq> f ` A \<Longrightarrow> \<exists>cs. xs = map f cs \<and> set cs \<subseteq> A"
proof (induction xs)
  case Nil
  then show ?case by simp
next
  case (Cons x xs)
  then obtain cs where cs: "xs = map f cs" "set cs \<subseteq> A"
    by auto
  from Cons.prems obtain c where c: "x = f c" "c \<in> A"
    by auto
  have "x # xs = map f (c # cs) \<and> set (c # cs) \<subseteq> A"
    using c cs by simp
  then show ?case by (rule exI)
qed

lemma recent_from_collection:
  "\<exists>cs. recent n coll = map (\<lambda>c. (''_id'', PObjectId (fst c)) # snd c) cs \<and> set cs \<subseteq> set coll"
proof -
  have "set (recent n coll) \<subseteq> (\<lambda>c. (''_id'', PObjectId (fst c)) # snd c) ` set coll"
    using set_take_subset [of n "sort_desc (find_all coll)"]
    by (simp add: recent_def find_all_map)
  then show ?thesis
    by (rule list_of_image)
qed

text \<open>
  Claim C9. For every state of the collection \<open>GET /api/events\<close> answers 200 with a
  JSON array of at most ten events: as many as the collection holds when it holds
  fewer, none when it is empty. They are ordered by timestamp, newest first, and their
  timestamps are the ten greatest of the collection. Each is a stored document with its
  \<open>_id\<close> rendered as a string, the 24 hexadecimal digits of the ObjectId. The states
  of the collection are those \<open>receiver\<close> produces: every document holds JSON values and
  a string timestamp (\<open>receiver_keeps_stored_events\<close>).
\<close>

theorem get_events_recent:
  assumes "list_all (\<lambda>c. stored_event (snd c)) coll"
  shows "\<exists>evs. get_events e coll = Inr \<lparr>status = 200, body = PList (map PDict evs)\<rparr>
      \<and> length evs = min 10 (length coll)
      \<and> sorted_wrt (\<lambda>a b. timestamp_of b \<le> timestamp_of a) evs
      \<and> map timestamp_of evs = take 10 (rev (sort (map (\<lambda>c. timestamp_of (snd c)) coll)))
      \<and> (\<forall>ev \<in> set evs. \<exists>c \<in> set coll. ev = (''_id'', PStr (str_oid (fst c))) # snd c)
      \<and> (coll = [] \<longrightarrow> evs = [])"
proof -
  from recent_from_collection [of 10 coll] obtain cs where
    cs: "recent 10 coll = map (\<lambda>c. (''_id'', PObjectId (fst c)) # snd c) cs" "set cs \<subseteq> set coll"
    by blast
  define evs where "evs = map (\<lambda>c. (''_id'', PStr (str_oid (fst c))) # snd c) cs"
  have ts: "map timestamp_of evs = map timestamp_of (recent 10 coll)"
    by (simp add: evs_def cs(1) comp_def)
  have len: "length evs = length (recent 10 coll)"
    by (simp add: evs_def cs(1))
  have "jsonable (PList (map PDict evs))"
    using assms cs(2) by (auto simp: evs_def list_all_iff stored_event_def)
  then have 1: "get_events e coll = Inr \<lparr>status = 200, body = PList (map PDict evs)\<rparr>"
    by (simp add: get_events_def cs(1) ids_to_str_found evs_def)
  have 2: "length evs = min 10 (length coll)"
    by (simp add: len recent_def find_all_def)
  have "sorted_wrt (\<lambda>a b. timestamp_of b \<le> timestamp_of a) (recent 10 coll)"
    using sorted_sort_desc [of "find_all coll"] by (simp add: recent_def sorted_wrt_take)
  then have "sorted_wrt (\<lambda>a b. b \<le> a) (map timestamp_of (recent 10 coll))"
    by (simp add: sorted_wrt_map)
  then have 3: "sorted_wrt (\<lambda>a b. timestamp_of b \<le> timestamp_of a) evs"
    by (simp add: ts [symmetric] sorted_wrt_map)
  have "map timestamp_of (find_all coll) = map (\<lambda>c. timestamp_of (snd c)) coll"
    by (simp add: find_all_map comp_def)
  moreover have "map timestamp_of (recent 10 coll)
      = take 10 (map timestamp_of (sort_desc (find_all coll)))"
    by (simp add: recent_def take_map)
  ultimately have 4: "map timestamp_of evs = take 10 (rev (sort (map (\<lambda>c. timestamp_of (snd c)) coll)))"
    by (simp add: ts timestamps_sort_desc)
  have 5: "\<forall>ev \<in> set evs. \<exists>c \<in> set coll. ev = (''_id'', PStr (str_oid (fst c))) # snd c"
    using cs(2) by (auto simp: evs_def)
  have 6: "coll = [] \<longrightarrow> evs = []"
    using 2 by auto
  from 1 2 3 4 5 6 show ?thesis
    by blast
qed

lemma example_sorted:
  "take 10 (rev (sort (map (\<lambda>c. timestamp_of (snd c)) example_collection)))
     = [''2024-01-03T08:30:00'', ''2024-01-02T09:15:00.250000'', ''2024-01-01T12:00:00.000000'']"
  by code_simp

lemma eleven_sorted:
  "take 10 (rev (sort (map (\<lambda>c. timestamp_of (snd c)) eleven_documents)))
     = [''a'', ''9'', ''8'', ''7'', ''6'', ''5'', ''4'', ''3'', ''2'', ''1'']"
  by code_simp

lemma eleven_length: "length eleven_documents = 11"
  by (simp add: eleven_documents_def)

lemma example_events:
  "get_events open_env example_collection =
     Inr \<lparr>status = 200,
          body = PList
            [PDict [(''_id'', PStr ''507f1f77bcf86cd799439013''),
               (''request_id'', PStr ''sha9''), (''author'', PStr ''carol''), (''action'', PStr ''MERGE''),
               (''from_branch'', PStr ''feat''), (''to_branch'', PStr ''main''),
               (''timestamp'', PStr ''2024-01-03T08:30:00'')],
             PDict [(''_id'', PStr ''507f1f77bcf86cd799439012''),
               (''request_id'', PStr ''42''), (''author'', PStr ''bob''), (''action'', PStr ''PULL_REQUEST''),
               (''from_branch'', PStr ''feat''), (''to_branch'', PStr ''main''),
               (''timestamp'', PStr ''2024-01-02T09:15:00.250000'')],
             PDict [(''_id'', PStr ''507f1f77bcf86cd799439011''),
               (''request_id'', PStr ''sha1''), (''author'', PStr ''alice''), (''action'', PStr ''PUSH''),
               (''from_branch'', PNone), (''to_branch'', PStr ''main''),
               (''timestamp'', PStr ''2024-01-01T12:00:00.000000'')]]\<rparr>"
  by code_simp

theorem get_events_recent_witness:
  "list_all (\<lambda>c. stored_event (snd c)) example_collection
   \<and> (\<exists>evs. get_events open_env example_collection = Inr \<lparr>status = 200, body = PList (map PDict evs)\<rparr>
      \<and> length evs = 3
      \<and> map timestamp_of evs
          = [''2024-01-03T08:30:00'', ''2024-01-02T09:15:00.250000'', ''2024-01-01T12:00:00.000000''])
   \<and> list_all (\<lambda>c. stored_event (snd c)) eleven_documents
   \<and> (\<exists>evs. get_events open_env eleven_documents
           = Inr \<lparr>status = 200, body = PList (map PDict evs)\<rparr>
      \<and> length evs = 10
      \<and> map timestamp_of evs = [''a'', ''9'', ''8'', ''7'', ''6'', ''5'', ''4'', ''3'', ''2'', ''1''])
   \<and> get_events open_env [] = Inr \<lparr>status = 200, body = PList []\<rparr>"
proof -
  have l: "length example_collection = 3"
    by (simp add: example_collection_def)
  have s3: "list_all (\<lambda>c. stored_event (snd c)) example_collection"
    by (simp add: example_collection_def stored_event_def dict_get_def)
  have s11: "list_all (\<lambda>c. stored_event (snd c)) eleven_documents"
    by (simp add: eleven_documents_def stored_event_def dict_get_def list_all_iff)
  from get_events_recent [OF s3, of open_env] obtain evs where
    "get_events open_env example_collection = Inr \<lparr>status = 200, body = PList (map PDict evs)\<rparr>"
    "length evs = min 10 (length example_collection)"
    "map timestamp_of evs = take 10 (rev (sort (map (\<lambda>c. timestamp_of (snd c)) example_collection)))"
    by blast
  then have a: "\<exists>evs. get_events open_env example_collection = Inr \<lparr>status = 200, body = PList (map PDict evs)\<rparr>
      \<and> length evs = 3
      \<and> map timestamp_of evs
          = [''2024-01-03T08:30:00'', ''2024-01-02T09:15:00.250000'', ''2024-01-01T12:00:00.000000'']"
    by (intro exI [of _ evs]) (simp add: example_sorted l)
  from get_events_recent [OF s11, of open_env] obtain evs where
    "get_events open_env eleven_documents = Inr \<lparr>status = 200, body = PList (map PDict evs)\<rparr>"
    "length evs = min 10 (length eleven_documents)"
    "map timestamp_of evs = take 10 (rev (sort (map (\<lambda>c. timestamp_of (snd c)) eleven_documents)))"
    by blast
  then have b: "\<exists>evs. get_events open_env eleven_documents = Inr \<lparr>status = 200, body = PList (map PDict evs)\<rparr>
      \<and> length evs = 10
      \<and> map timestamp_of evs = [''a'', ''9'', ''8'', ''7'', ''6'', ''5'', ''4'', ''3'', ''2'', ''1'']"
    by (intro exI [of _ evs]) (simp add: eleven_sorted eleven_length)
  from get_events_recent [of "[]" open_env]
  have c: "get_events open_env [] = Inr \<lparr>status = 200, body = PList []\<rparr>"
    by auto
  from a b c s3 s11 show ?thesis
    by blast
qed

end
